theory Spec2Isabelle
  imports Main "HOL-Library.Sublist"
begin

section \<open>PetChat: the intake form and chat script of \<open>recommendation.py\<close>\<close>

text \<open>
  \<open>recommendation.py\<close> is a Streamlit script: the framework executes the whole file from
  its first line on every user interaction, against the session's \<open>st.session_state\<close>
  and the values the widgets hold in that run. One execution of the file is modelled as
  the function \<open>run_script\<close>: it takes the environment of the run, the stored session
  state and the widget values, and returns the stored session state afterwards, the
  trace of what the run showed (and asked of the model), and how the run ended.

  Python strings are \<open>string\<close>; a character outside ASCII is written as its UTF-8
  bytes. No property below depends on the length of a string.
\<close>

subsection \<open>Data\<close>

text \<open>A raised \<open>Exception\<close>, carrying the text \<open>str(e)\<close>.\<close>

datatype exn = Exception string

text \<open>
  How one execution of the script ends: it runs to its last line, \<open>st.stop()\<close> halts it,
  \<open>st.rerun()\<close> halts it and asks for a fresh execution, or an exception leaves it
  uncaught.
\<close>

datatype outcome = Completed | Stopped | Rerun | Raised exn

text \<open>
  The trace of a run, one entry per \<open>st.*\<close> call in call order, and \<open>ModelRequest\<close> for
  the formatted prompt that \<open>conversation_chain.invoke\<close> sends to the model.
\<close>

datatype event =
    PageConfig string string
  | Title string
  | Markdown string
  | ErrorBox string
  | WarningBox string
  | Subheader string
  | TextInput string
  | Selectbox string "string list"
  | TextArea string
  | FormSubmitButton string
  | Expander string bool string
  | ChatMessage string string
  | ChatInput string
  | Spinner string
  | ModelRequest string

text \<open>A message is the dict \<open>{"role": ..., "content": ...}\<close>.\<close>

record message =
  role :: string
  content :: string

text \<open>
  \<open>st.session_state\<close> holds three keys; a key is absent (\<open>None\<close>) until lines 66-71 set
  its default. After those lines every key is present, and the rest of the script works
  on \<open>session_state\<close>.
\<close>

record stored_state =
  form_submitted_key :: "bool option"
  pet_info_key :: "string option"
  messages_key :: "message list option"

record session_state =
  form_submitted :: bool
  pet_info :: string
  messages :: "message list"

text \<open>
  The values the widgets of the form return in one run. \<open>selected_breed\<close> is the breed
  selectbox of the run (dog or cat list), \<open>other_breed\<close> the text input shown under
  "Other", \<open>typed_breed\<close> the text input of line 111; a widget that the run does not
  create is not read.
\<close>

record form_values =
  name :: string
  species :: string
  selected_breed :: string
  other_breed :: string
  typed_breed :: string
  age :: string
  behavior :: string
  diet :: string
  exercise :: string
  submit :: bool

record widgets =
  form :: form_values
  user_input :: "string option"

text \<open>
  The model client: a formatted prompt is answered with text, or the call raises. The
  environment of a run is the value of \<open>GOOGLE_API_KEY\<close> (\<open>os.getenv\<close> gives \<open>None\<close> when
  it is not set) and the constructor \<open>ChatGoogleGenerativeAI\<close>, which returns a client
  for a key or raises.
\<close>

type_synonym llm = "string \<Rightarrow> exn + string"

record environment =
  api_key :: "string option"
  make_llm :: "string \<Rightarrow> exn + llm"

text \<open>\<open>ConversationBufferMemory\<close>: the buffer of human and AI messages, oldest first.\<close>

datatype speaker = Human | AI

type_synonym memory = "(speaker \<times> string) list"

subsection \<open>Constants of the script\<close>

definition placeholder :: string where
  "placeholder = ''Please select...''"

definition species_options :: "string list" where
  "species_options = [''Please select...'', ''Dog'', ''Cat'', ''Bird'', ''Rabbit'', ''Other'']"

definition dog_breeds :: "string list" where
  "dog_breeds =
     [''Please select...'',
      ''Labrador Retriever'', ''German Shepherd'', ''Golden Retriever'',
      ''Bulldog'', ''Beagle'', ''Poodle'', ''Rottweiler'',
      ''Dachshund'', ''Siberian Husky'', ''Other'']"

definition cat_breeds :: "string list" where
  "cat_breeds =
     [''Please select...'',
      ''Persian Cat'', ''Maine Coon'', ''Siamese Cat'',
      ''British Shorthair'', ''Bengal Cat'', ''Sphynx'', ''Ragdoll'', ''Other'']"

definition paw :: string where
  "paw = [CHR 0xF0, CHR 0x9F, CHR 0x90, CHR 0xBE]"

definition em_dash :: string where
  "em_dash = [CHR 0xE2, CHR 0x80, CHR 0x94]"

text \<open>Lines 13-16: what every run shows first.\<close>

definition page_header :: "event list" where
  "page_header =
     [PageConfig ''Personalized Pet Care Chat'' paw,
      Title (paw @ '' Personalized Pet Care Chat''),
      Markdown ''I'm here to help! Please tell me about your pet, then I'll give tailored recommendations!'']"

definition missing_key_message :: string where
  "missing_key_message =
     ''The GOOGLE_API_KEY environment variable is not set. Please check your .env file.''"

definition validation_warning :: string where
  "validation_warning = ''Please provide species, breed, and age.''"

definition greeting :: message where
  "greeting =
     \<lparr>role = ''assistant'',
      content = ''Thanks! What recommendations do you want '' @ em_dash
                @ '' diet, exercise, or wellness tips?''\<rparr>"

subsection \<open>Start of a run: API key and model client (lines 19-28)\<close>

text \<open>
  \<open>st.stop()\<close> raises a script-control exception that derives from \<open>BaseException\<close>, so
  the \<open>except Exception\<close> of line 26 does not catch the stop of line 23.
\<close>

definition initialize :: "environment \<Rightarrow> (event list \<times> outcome) + llm" where
  "initialize env =
     (case api_key env of
        None \<Rightarrow> Inl ([ErrorBox missing_key_message], Stopped)
      | Some k \<Rightarrow>
          if k = [] then Inl ([ErrorBox missing_key_message], Stopped)
          else (case make_llm env k of
                  Inl (Exception e) \<Rightarrow>
                    Inl ([ErrorBox (''Failed to initialize the LLM: '' @ e)], Stopped)
                | Inr model \<Rightarrow> Inr model))"

subsection \<open>Prompt, memory and chain (lines 31-63)\<close>

definition format_prompt :: "string \<Rightarrow> string \<Rightarrow> string \<Rightarrow> string" where
  "format_prompt pet_info_text chat_history human_input =
     ''\<newline>You are a friendly and professional pet care expert. \<newline>''
     @ ''Use the information the user gave about their pet to provide tailored recommendations.\<newline>''
     @ ''\<newline>''
     @ ''Pet Info:\<newline>''
     @ pet_info_text @ ''\<newline>''
     @ ''\<newline>''
     @ ''Conversation so far:\<newline>''
     @ chat_history @ ''\<newline>''
     @ ''\<newline>''
     @ ''User's request: '' @ human_input @ ''\<newline>''
     @ ''\<newline>''
     @ ''Give a comprehensive bulleted list of recommendations.\<newline>''"

text \<open>Line 46: a buffer memory is constructed empty.\<close>

definition new_memory :: memory where
  "new_memory = []"

fun join_lines :: "string list \<Rightarrow> string" where
  "join_lines [] = []"
| "join_lines [l] = l"
| "join_lines (l # ls) = l @ ''\<newline>'' @ join_lines ls"

definition prefix_of :: "speaker \<Rightarrow> string" where
  "prefix_of s = (case s of Human \<Rightarrow> ''Human'' | AI \<Rightarrow> ''AI'')"

text \<open>
  The text the memory puts into the \<open>chat_history\<close> slot: one line \<open>prefix: content\<close>
  per buffered message, joined by newlines.
\<close>

definition buffer_string :: "memory \<Rightarrow> string" where
  "buffer_string mem = join_lines (map (\<lambda>(s, c). prefix_of s @ '': '' @ c) mem)"

text \<open>
  \<open>conversation_chain.invoke\<close>: the chain reads \<open>chat_history\<close> from its memory, formats
  the prompt and calls the model. When the model answers, the chain saves the human
  input and the answer in the memory and returns the answer under \<open>"text"\<close>; when the
  model raises, the exception leaves \<open>invoke\<close> and the memory is as before.
\<close>

definition chain_prompt :: "memory \<Rightarrow> string \<Rightarrow> string \<Rightarrow> string" where
  "chain_prompt mem pet_info_text human_input =
     format_prompt pet_info_text (buffer_string mem) human_input"

definition conversation_chain_invoke ::
  "llm \<Rightarrow> memory \<Rightarrow> string \<Rightarrow> string \<Rightarrow> (exn + string) \<times> memory" where
  "conversation_chain_invoke model mem pet_info_text human_input =
     (case model (chain_prompt mem pet_info_text human_input) of
        Inl e \<Rightarrow> (Inl e, mem)
      | Inr text \<Rightarrow> (Inr text, mem @ [(Human, human_input), (AI, text)]))"

subsection \<open>Session state defaults (lines 66-71)\<close>

definition session_defaults :: "stored_state \<Rightarrow> session_state" where
  "session_defaults s =
     \<lparr>form_submitted = (case form_submitted_key s of None \<Rightarrow> False | Some b \<Rightarrow> b),
      pet_info = (case pet_info_key s of None \<Rightarrow> [] | Some p \<Rightarrow> p),
      messages = (case messages_key s of None \<Rightarrow> [] | Some ms \<Rightarrow> ms)\<rparr>"

definition store :: "session_state \<Rightarrow> stored_state" where
  "store st =
     \<lparr>form_submitted_key = Some (form_submitted st),
      pet_info_key = Some (pet_info st),
      messages_key = Some (messages st)\<rparr>"

text \<open>The session state of a session that has not run the script yet.\<close>

definition new_session :: stored_state where
  "new_session = \<lparr>form_submitted_key = None, pet_info_key = None, messages_key = None\<rparr>"

subsection \<open>The intake form (lines 74-133)\<close>

text \<open>Lines 83-111: the breed of the run and the breed widgets the run creates.\<close>

definition breed_widgets :: "form_values \<Rightarrow> string \<times> event list" where
  "breed_widgets v =
     (if species v = ''Dog'' then
        (if selected_breed v = ''Other''
         then (other_breed v,
               [Selectbox ''Select Dog Breed'' dog_breeds, TextInput ''Please type the breed''])
         else (selected_breed v, [Selectbox ''Select Dog Breed'' dog_breeds]))
      else if species v = ''Cat'' then
        (if selected_breed v = ''Other''
         then (other_breed v,
               [Selectbox ''Select Cat Breed'' cat_breeds, TextInput ''Please type the breed''])
         else (selected_breed v, [Selectbox ''Select Cat Breed'' cat_breeds]))
      else if species v \<in> set [''Bird'', ''Rabbit'', ''Other''] then
        (typed_breed v, [TextInput ''Please type the breed/species''])
      else ([], []))"

definition breed :: "form_values \<Rightarrow> string" where
  "breed v = fst (breed_widgets v)"

definition form_events :: "form_values \<Rightarrow> event list" where
  "form_events v =
     [Subheader ''Tell me about your pet'',
      TextInput ''What's their name?'',
      Selectbox ''What species are they?'' species_options]
     @ snd (breed_widgets v)
     @ [TextInput ''How old are they?'',
        TextArea ''Behavior/Health concerns?'',
        TextArea ''Current diet?'',
        TextArea ''Current exercise routine?'',
        FormSubmitButton ''Save & Continue'']"

text \<open>Line 121: the condition under which a submission is refused.\<close>

definition incomplete :: "form_values \<Rightarrow> bool" where
  "incomplete v \<longleftrightarrow>
     species v = ''Please select...''
     \<or> (breed v = [] \<or> breed v = ''Please select...'')
     \<or> age v = []"

text \<open>Lines 125-128: the profile text.\<close>

definition profile_text :: "form_values \<Rightarrow> string" where
  "profile_text v =
     ''Name: '' @ name v @ ''\<newline>Species: '' @ species v
     @ ''\<newline>Breed: '' @ breed v @ ''\<newline>Age: '' @ age v @ ''\<newline>''
     @ ''Behavior/Concerns: '' @ behavior v @ ''\<newline>Diet: '' @ diet v
     @ ''\<newline>Exercise: '' @ exercise v"

definition form_page :: "session_state \<Rightarrow> form_values \<Rightarrow> session_state \<times> event list \<times> outcome" where
  "form_page st v =
     (if submit v then
        (if incomplete v then (st, form_events v @ [WarningBox validation_warning], Completed)
         else (st\<lparr>form_submitted := True,
                  pet_info := profile_text v,
                  messages := messages st @ [greeting]\<rparr>,
               form_events v, Rerun))
      else (st, form_events v, Completed))"

subsection \<open>The chat view (lines 136-161)\<close>

text \<open>Lines 138-144 and the input box of line 147: the saved profile and the transcript.\<close>

definition chat_view :: "session_state \<Rightarrow> event list" where
  "chat_view st =
     Expander ''Pet Information (saved from form)'' True
        (''```\<newline>'' @ pet_info st @ ''\<newline>```'')
     # map (\<lambda>msg. ChatMessage (role msg) (content msg)) (messages st)
     @ [ChatInput ''Type your request...'']"

text \<open>
  Lines 147-161. The body of the \<open>if\<close> runs when \<open>st.chat_input\<close> returned a string that
  is not empty. \<open>mem\<close> is the memory the chain of this run holds.
\<close>

definition chat_page ::
  "llm \<Rightarrow> memory \<Rightarrow> session_state \<Rightarrow> string option \<Rightarrow> session_state \<times> event list \<times> outcome" where
  "chat_page model mem st inp =
     (case inp of
        None \<Rightarrow> (st, chat_view st, Completed)
      | Some u \<Rightarrow>
          if u = [] then (st, chat_view st, Completed)
          else
            let st1 = st\<lparr>messages := messages st @ [\<lparr>role = ''user'', content = u\<rparr>]\<rparr>;
                shown = chat_view st
                        @ [ChatMessage ''user'' u, Spinner ''Thinking...'',
                           ModelRequest (chain_prompt mem (pet_info st1) u)]
            in (case fst (conversation_chain_invoke model mem (pet_info st1) u) of
                  Inl e \<Rightarrow> (st1, shown, Raised e)
                | Inr response \<Rightarrow>
                    (st1\<lparr>messages := messages st1 @ [\<lparr>role = ''assistant'', content = response\<rparr>]\<rparr>,
                     shown @ [ChatMessage ''assistant'' response],
                     Completed)))"

subsection \<open>One execution of the script\<close>

text \<open>
  The chain and its memory are built at lines 46-63 of the run itself, so the memory the
  chat view uses is the \<open>new_memory\<close> of this run; what \<open>invoke\<close> saves in it is in no
  key of the session state and ends with the run.
\<close>

definition run_script ::
  "environment \<Rightarrow> stored_state \<Rightarrow> widgets \<Rightarrow> stored_state \<times> event list \<times> outcome" where
  "run_script env s w =
     (case initialize env of
        Inl (shown, how) \<Rightarrow> (s, page_header @ shown, how)
      | Inr model \<Rightarrow>
          let st = session_defaults s;
              (st', shown, how) =
                (if \<not> form_submitted st then form_page st (form w)
                 else chat_page model new_memory st (user_input w))
          in (store st', page_header @ shown, how))"

text \<open>
  A session is a sequence of executions, each with its own environment and widget
  values, threaded through the stored session state. The result is the state at the
  end and the trace of every run.
\<close>

fun run_session ::
  "stored_state \<Rightarrow> (environment \<times> widgets) list \<Rightarrow> stored_state \<times> (event list \<times> outcome) list" where
  "run_session s [] = (s, [])"
| "run_session s ((env, w) # rest) =
     (let (s', shown, how) = run_script env s w;
          (s'', later) = run_session s' rest
      in (s'', (shown, how) # later))"

subsection \<open>Example inputs\<close>

text \<open>
  Concrete environments, form values and states at which the theorems below are
  instantiated: a model client that answers every prompt, one that raises on every
  prompt, and the form as a new session shows it.
\<close>

definition scenario_llm :: llm where
  "scenario_llm prompt = Inr ''Feed twice a day.''"

definition failing_llm :: llm where
  "failing_llm prompt = Inl (Exception ''quota exceeded'')"

definition scenario_env :: environment where
  "scenario_env = \<lparr>api_key = Some ''secret'', make_llm = (\<lambda>k. Inr scenario_llm)\<rparr>"

definition failing_env :: environment where
  "failing_env = \<lparr>api_key = Some ''secret'', make_llm = (\<lambda>k. Inr failing_llm)\<rparr>"

definition blank_form :: form_values where
  "blank_form =
     \<lparr>name = [], species = ''Please select...'', selected_breed = [], other_breed = [],
      typed_breed = [], age = [], behavior = [], diet = [], exercise = [], submit = False\<rparr>"

definition fresh :: session_state where
  "fresh = \<lparr>form_submitted = False, pet_info = [], messages = []\<rparr>"

definition no_key_env :: environment where
  "no_key_env = \<lparr>api_key = None, make_llm = (\<lambda>k. Inr scenario_llm)\<rparr>"

definition bad_client_env :: environment where
  "bad_client_env =
     \<lparr>api_key = Some ''secret'', make_llm = (\<lambda>k. Inl (Exception ''invalid key''))\<rparr>"

definition beagle_form :: form_values where
  "beagle_form =
     blank_form\<lparr>species := ''Dog'', selected_breed := ''Beagle'', age := ''3'', submit := True\<rparr>"

definition catahoula_form :: form_values where
  "catahoula_form =
     blank_form\<lparr>species := ''Dog'', selected_breed := ''Other'',
                other_breed := ''Catahoula Leopard Dog'', age := ''5'', submit := True\<rparr>"

definition ragdoll :: session_state where
  "ragdoll =
     \<lparr>form_submitted = True,
      pet_info = ''Species: Cat\<newline>Breed: Ragdoll\<newline>Age: 1'',
      messages = [greeting]\<rparr>"

subsection \<open>Reading a trace\<close>

text \<open>The entries of a trace that are input widgets.\<close>

definition interactive :: "event \<Rightarrow> bool" where
  "interactive e =
     (case e of
        TextInput l \<Rightarrow> True
      | Selectbox l os \<Rightarrow> True
      | TextArea l \<Rightarrow> True
      | FormSubmitButton l \<Rightarrow> True
      | ChatInput l \<Rightarrow> True
      | _ \<Rightarrow> False)"

text \<open>The entries of a trace that belong to the intake form.\<close>

definition form_widget :: "event \<Rightarrow> bool" where
  "form_widget e =
     (case e of
        Subheader l \<Rightarrow> True
      | TextInput l \<Rightarrow> True
      | Selectbox l os \<Rightarrow> True
      | TextArea l \<Rightarrow> True
      | FormSubmitButton l \<Rightarrow> True
      | _ \<Rightarrow> False)"

text \<open>The chat messages a trace shows, in the order shown.\<close>

fun shown_messages :: "event list \<Rightarrow> message list" where
  "shown_messages [] = []"
| "shown_messages (ChatMessage r c # es) = \<lparr>role = r, content = c\<rparr> # shown_messages es"
| "shown_messages (e # es) = shown_messages es"

text \<open>The prompts a trace sends to the model, in the order sent.\<close>

fun model_requests :: "event list \<Rightarrow> string list" where
  "model_requests [] = []"
| "model_requests (ModelRequest p # es) = p # model_requests es"
| "model_requests (e # es) = model_requests es"

subsection \<open>Chat turns of a session\<close>

text \<open>
  A chat turn is described by the text the user typed and by what the model call of the
  turn did: raise (\<open>Inl\<close>) or answer (\<open>Inr\<close>). \<open>chat_turn profile run t\<close> says that the run
  is such a turn: its start succeeds, the chat input holds the text, which is not empty,
  and the model client of the run does to the prompt of the turn what \<open>t\<close> records.
  \<open>turn_messages\<close> are the messages of a turn in call order: the user's, then the
  assistant's when the model answered. \<open>transcripts\<close> lists, turn by turn, the message
  list that has grown so far.
\<close>

definition turn_messages :: "string \<times> (exn + string) \<Rightarrow> message list" where
  "turn_messages t =
     \<lparr>role = ''user'', content = fst t\<rparr>
     # (case snd t of Inl e \<Rightarrow> [] | Inr r \<Rightarrow> [\<lparr>role = ''assistant'', content = r\<rparr>])"

fun transcripts :: "message list \<Rightarrow> (string \<times> (exn + string)) list \<Rightarrow> message list list" where
  "transcripts base [] = []"
| "transcripts base (t # ts) = (base @ turn_messages t) # transcripts (base @ turn_messages t) ts"

definition chat_turn :: "string \<Rightarrow> environment \<times> widgets \<Rightarrow> string \<times> (exn + string) \<Rightarrow> bool" where
  "chat_turn profile run t \<longleftrightarrow>
     (case initialize (fst run) of
        Inl stop \<Rightarrow> False
      | Inr model \<Rightarrow>
          user_input (snd run) = Some (fst t) \<and> fst t \<noteq> []
          \<and> model (chain_prompt new_memory profile (fst t)) = snd t)"

text \<open>Two chat inputs and the profile text that \<open>beagle_form\<close> is saved as.\<close>

definition diet_turn :: widgets where
  "diet_turn = \<lparr>form = blank_form, user_input = Some ''suggest a diet''\<rparr>"

definition exercise_turn :: widgets where
  "exercise_turn = \<lparr>form = blank_form, user_input = Some ''and exercise?''\<rparr>"

definition beagle_profile :: string where
  "beagle_profile = ''Name: \<newline>Species: Dog\<newline>Breed: Beagle\<newline>Age: 3\<newline>Behavior/Concerns: \<newline>Diet: \<newline>Exercise: ''"


section \<open>Properties\<close>

subsection \<open>Shared facts about one execution\<close>

lemma session_defaults_store: "session_defaults (store st) = st"
  by (simp add: session_defaults_def store_def)

lemma run_script_form:
  "initialize env = Inr model \<Longrightarrow> \<not> form_submitted st \<Longrightarrow>
   run_script env (store st) w =
     (store (fst (form_page st (form w))),
      page_header @ fst (snd (form_page st (form w))),
      snd (snd (form_page st (form w))))"
  by (simp add: run_script_def session_defaults_store split: prod.splits)

lemma run_script_chat:
  "initialize env = Inr model \<Longrightarrow> form_submitted st \<Longrightarrow>
   run_script env (store st) w =
     (store (fst (chat_page model new_memory st (user_input w))),
      page_header @ fst (snd (chat_page model new_memory st (user_input w))),
      snd (snd (chat_page model new_memory st (user_input w))))"
  by (simp add: run_script_def session_defaults_store split: prod.splits)

subsection \<open>The intake form\<close>

text \<open>
  Claim C1. A run in which the form is submitted while the species is the placeholder
  "Please select...", or the breed is empty or the placeholder, or the age is empty,
  shows the warning and leaves the session state as it was: \<open>form_submitted\<close> is still
  false, \<open>pet_info\<close> is unchanged and no message is appended.
\<close>

theorem C1_invalid_submission_rejected:
  assumes "initialize env = Inr model"
      and "\<not> form_submitted st"
      and "submit (form w)"
      and "species (form w) = placeholder
           \<or> breed (form w) = [] \<or> breed (form w) = placeholder
           \<or> age (form w) = []"
  shows "run_script env (store st) w =
           (store st,
            page_header @ form_events (form w) @ [WarningBox validation_warning],
            Completed)"
  using assms
  by (simp add: run_script_form form_page_def incomplete_def placeholder_def)

theorem C1_invalid_submission_rejected_witness:
  "initialize scenario_env = Inr scenario_llm
   \<and> \<not> form_submitted fresh
   \<and> submit (form \<lparr>form = blank_form\<lparr>age := ''2'', submit := True\<rparr>, user_input = None\<rparr>)
   \<and> species (form \<lparr>form = blank_form\<lparr>age := ''2'', submit := True\<rparr>, user_input = None\<rparr>)
       = placeholder
   \<and> run_script scenario_env (store fresh)
         \<lparr>form = blank_form\<lparr>age := ''2'', submit := True\<rparr>, user_input = None\<rparr> =
       (store fresh,
        page_header @ form_events (blank_form\<lparr>age := ''2'', submit := True\<rparr>)
          @ [WarningBox validation_warning],
        Completed)"
  using C1_invalid_submission_rejected [of scenario_env scenario_llm fresh
          "\<lparr>form = blank_form\<lparr>age := ''2'', submit := True\<rparr>, user_input = None\<rparr>"]
  by (simp add: initialize_def scenario_env_def fresh_def blank_form_def placeholder_def)

text \<open>
  Claim C2. A run in which the form is submitted with a species that is not the
  placeholder, a breed that is neither empty nor the placeholder and an age that is not
  empty sets \<open>form_submitted\<close> to true, sets \<open>pet_info\<close> to one text block holding the
  seven fields name, species, breed, age, behavior, diet and exercise on lines of their
  own, and appends exactly one message, of role assistant, to the message list.
\<close>

theorem C2_valid_submission_saved:
  assumes "initialize env = Inr model"
      and "\<not> form_submitted st"
      and "submit (form w)"
      and "species (form w) \<noteq> placeholder"
      and "breed (form w) \<noteq> []" and "breed (form w) \<noteq> placeholder"
      and "age (form w) \<noteq> []"
  shows "run_script env (store st) w =
           (store \<lparr>form_submitted = True,
                   pet_info =
                     ''Name: '' @ name (form w) @ ''\<newline>''
                     @ ''Species: '' @ species (form w) @ ''\<newline>''
                     @ ''Breed: '' @ breed (form w) @ ''\<newline>''
                     @ ''Age: '' @ age (form w) @ ''\<newline>''
                     @ ''Behavior/Concerns: '' @ behavior (form w) @ ''\<newline>''
                     @ ''Diet: '' @ diet (form w) @ ''\<newline>''
                     @ ''Exercise: '' @ exercise (form w),
                   messages = messages st @ [greeting]\<rparr>,
            page_header @ form_events (form w),
            Rerun)
         \<and> role greeting = ''assistant''"
proof -
  have "role greeting = ''assistant''"
    by (simp add: greeting_def)
  moreover have "fst (form_page st (form w)) =
      st\<lparr>form_submitted := True, pet_info := profile_text (form w),
         messages := messages st @ [greeting]\<rparr>"
    and "snd (form_page st (form w)) = (form_events (form w), Rerun)"
    using assms by (simp_all add: form_page_def incomplete_def placeholder_def)
  moreover have "store (st\<lparr>form_submitted := True, pet_info := p, messages := ms\<rparr>) =
      store \<lparr>form_submitted = True, pet_info = p, messages = ms\<rparr>" for p ms
    by (simp add: store_def)
  ultimately show ?thesis
    using assms(1,2) by (simp add: run_script_form profile_text_def)
qed

theorem C2_valid_submission_saved_witness:
  "initialize scenario_env = Inr scenario_llm
   \<and> \<not> form_submitted fresh
   \<and> submit (form \<lparr>form = beagle_form, user_input = None\<rparr>)
   \<and> species (form \<lparr>form = beagle_form, user_input = None\<rparr>) \<noteq> placeholder
   \<and> breed (form \<lparr>form = beagle_form, user_input = None\<rparr>) \<noteq> []
   \<and> breed (form \<lparr>form = beagle_form, user_input = None\<rparr>) \<noteq> placeholder
   \<and> age (form \<lparr>form = beagle_form, user_input = None\<rparr>) \<noteq> []
   \<and> run_script scenario_env (store fresh) \<lparr>form = beagle_form, user_input = None\<rparr> =
        (store \<lparr>form_submitted = True,
                pet_info = ''Name: \<newline>Species: Dog\<newline>Breed: Beagle\<newline>Age: 3\<newline>Behavior/Concerns: \<newline>Diet: \<newline>Exercise: '',
                messages = [greeting]\<rparr>,
         page_header @ form_events beagle_form,
         Rerun)"
  using C2_valid_submission_saved [of scenario_env scenario_llm fresh
          "\<lparr>form = beagle_form, user_input = None\<rparr>"]
  by (simp add: initialize_def scenario_env_def fresh_def blank_form_def beagle_form_def
        placeholder_def breed_def breed_widgets_def)

text \<open>
  Claim C6. With species "Dog", selected breed "Beagle" and age "3" the submission is
  accepted and the stored breed is "Beagle"; with species "Dog", selected breed "Other",
  typed breed "Catahoula Leopard Dog" and age "5" the submission is accepted and the
  stored breed is the typed text.
\<close>

theorem C6_breed_scenarios:
  assumes "initialize env = Inr model"
  shows "breed beagle_form = ''Beagle''
         \<and> fst (run_script env new_session \<lparr>form = beagle_form, user_input = None\<rparr>) =
             store \<lparr>form_submitted = True,
                    pet_info = ''Name: \<newline>Species: Dog\<newline>Breed: Beagle\<newline>Age: 3\<newline>Behavior/Concerns: \<newline>Diet: \<newline>Exercise: '',
                    messages = [greeting]\<rparr>
         \<and> breed catahoula_form = ''Catahoula Leopard Dog''
         \<and> fst (run_script env new_session \<lparr>form = catahoula_form, user_input = None\<rparr>) =
             store \<lparr>form_submitted = True,
                    pet_info = ''Name: \<newline>Species: Dog\<newline>Breed: Catahoula Leopard Dog\<newline>Age: 5\<newline>Behavior/Concerns: \<newline>Diet: \<newline>Exercise: '',
                    messages = [greeting]\<rparr>"
  using assms
  by (simp add: run_script_def session_defaults_def new_session_def form_page_def incomplete_def
        profile_text_def breed_def breed_widgets_def beagle_form_def catahoula_form_def
        blank_form_def store_def)

theorem C6_breed_scenarios_witness:
  "initialize scenario_env = Inr scenario_llm
   \<and> pet_info_key (fst (run_script scenario_env new_session
                           \<lparr>form = catahoula_form, user_input = None\<rparr>)) =
       Some ''Name: \<newline>Species: Dog\<newline>Breed: Catahoula Leopard Dog\<newline>Age: 5\<newline>Behavior/Concerns: \<newline>Diet: \<newline>Exercise: ''
   \<and> form_submitted_key (fst (run_script scenario_env new_session
                                 \<lparr>form = beagle_form, user_input = None\<rparr>)) = Some True"
  using C6_breed_scenarios [of scenario_env scenario_llm]
  by (simp add: initialize_def scenario_env_def store_def)

text \<open>
  Claim C10. For species "Dog" or "Cat", when the selected breed is "Other" and the
  free-text breed is left empty, the breed of the submission is the empty string and the
  submission is rejected: the warning is shown and the session state stays as it was.
\<close>

theorem C10_other_without_text_rejected:
  assumes "initialize env = Inr model"
      and "\<not> form_submitted st"
      and "submit (form w)"
      and "species (form w) = ''Dog'' \<or> species (form w) = ''Cat''"
      and "selected_breed (form w) = ''Other''"
      and "other_breed (form w) = []"
  shows "breed (form w) = []
         \<and> run_script env (store st) w =
             (store st,
              page_header @ form_events (form w) @ [WarningBox validation_warning],
              Completed)"
  using assms
  by (auto simp add: run_script_form form_page_def incomplete_def breed_def breed_widgets_def)

theorem C10_other_without_text_rejected_witness:
  "initialize scenario_env = Inr scenario_llm
   \<and> \<not> form_submitted fresh
   \<and> submit (blank_form\<lparr>species := ''Cat'', selected_breed := ''Other'', age := ''4'', submit := True\<rparr>)
   \<and> species (blank_form\<lparr>species := ''Cat'', selected_breed := ''Other'', age := ''4'', submit := True\<rparr>) = ''Cat''
   \<and> other_breed (blank_form\<lparr>species := ''Cat'', selected_breed := ''Other'', age := ''4'', submit := True\<rparr>) = []
   \<and> breed (blank_form\<lparr>species := ''Cat'', selected_breed := ''Other'', age := ''4'', submit := True\<rparr>) = []
   \<and> fst (run_script scenario_env (store fresh)
        \<lparr>form = blank_form\<lparr>species := ''Cat'', selected_breed := ''Other'', age := ''4'', submit := True\<rparr>,
         user_input = None\<rparr>) = store fresh"
  using C10_other_without_text_rejected [of scenario_env scenario_llm fresh
          "\<lparr>form = blank_form\<lparr>species := ''Cat'', selected_breed := ''Other'', age := ''4'', submit := True\<rparr>,
            user_input = None\<rparr>"]
  by (simp add: initialize_def scenario_env_def fresh_def blank_form_def)

subsection \<open>Start of a run\<close>

text \<open>
  Claim C8. When the credential is not in the environment (\<open>os.getenv\<close> gives nothing, or
  the empty string), the run shows the error about the missing key and stops; when the
  construction of the model client raises, the exception is caught, the run shows an
  error with its text and stops. In both cases the run ends by \<open>st.stop()\<close>, not by an
  exception, the session state is untouched, and the trace holds no input widget of the
  form or of the chat.
\<close>

theorem C8_startup_failure_halts:
  "((api_key env = None \<or> api_key env = Some []) \<longrightarrow>
      run_script env s w = (s, page_header @ [ErrorBox missing_key_message], Stopped))
   \<and> ((api_key env = Some k \<and> k \<noteq> [] \<and> make_llm env k = Inl (Exception e)) \<longrightarrow>
      run_script env s w =
        (s, page_header @ [ErrorBox (''Failed to initialize the LLM: '' @ e)], Stopped))
   \<and> (\<forall>text. \<not> (\<exists>ev \<in> set (page_header @ [ErrorBox text]). interactive ev))"
  by (auto simp add: run_script_def initialize_def page_header_def interactive_def)

theorem C8_startup_failure_halts_witness:
  "api_key no_key_env = None
   \<and> run_script no_key_env new_session \<lparr>form = beagle_form, user_input = None\<rparr> =
       (new_session, page_header @ [ErrorBox missing_key_message], Stopped)
   \<and> api_key bad_client_env = Some ''secret'' \<and> ''secret'' \<noteq> []
   \<and> make_llm bad_client_env ''secret'' = Inl (Exception ''invalid key'')
   \<and> run_script bad_client_env new_session \<lparr>form = beagle_form, user_input = None\<rparr> =
       (new_session,
        page_header @ [ErrorBox ''Failed to initialize the LLM: invalid key''],
        Stopped)"
  using C8_startup_failure_halts [of no_key_env new_session
          "\<lparr>form = beagle_form, user_input = None\<rparr>" "''secret''" "''invalid key''"]
        C8_startup_failure_halts [of bad_client_env new_session
          "\<lparr>form = beagle_form, user_input = None\<rparr>" "''secret''" "''invalid key''"]
  by (simp add: no_key_env_def bad_client_env_def)

subsection \<open>The chat view\<close>

text \<open>
  Claim C5. When the model call of a chat turn raises, the exception leaves the run
  uncaught, and the session state afterwards holds the user's message, appended before
  the call, and no assistant message for it.
\<close>

theorem C5_model_error_propagates:
  assumes "initialize env = Inr model"
      and "form_submitted st"
      and "user_input w = Some u" and "u \<noteq> []"
      and "model (chain_prompt new_memory (pet_info st) u) = Inl e"
  shows "run_script env (store st) w =
           (store (st\<lparr>messages := messages st @ [\<lparr>role = ''user'', content = u\<rparr>]\<rparr>),
            page_header @ chat_view st
              @ [ChatMessage ''user'' u, Spinner ''Thinking...'',
                 ModelRequest (chain_prompt new_memory (pet_info st) u)],
            Raised e)"
  using assms
  by (simp add: run_script_chat chat_page_def conversation_chain_invoke_def Let_def)

theorem C5_model_error_propagates_witness:
  "initialize failing_env = Inr failing_llm
   \<and> form_submitted ragdoll
   \<and> user_input \<lparr>form = blank_form, user_input = Some ''suggest a diet''\<rparr> = Some ''suggest a diet''
   \<and> ''suggest a diet'' \<noteq> []
   \<and> failing_llm (chain_prompt new_memory (pet_info ragdoll) ''suggest a diet'')
        = Inl (Exception ''quota exceeded'')
   \<and> run_script failing_env (store ragdoll)
          \<lparr>form = blank_form, user_input = Some ''suggest a diet''\<rparr> =
        (store (ragdoll\<lparr>messages := [greeting, \<lparr>role = ''user'', content = ''suggest a diet''\<rparr>]\<rparr>),
         page_header @ chat_view ragdoll
           @ [ChatMessage ''user'' ''suggest a diet'', Spinner ''Thinking...'',
              ModelRequest (chain_prompt new_memory (pet_info ragdoll) ''suggest a diet'')],
         Raised (Exception ''quota exceeded''))"
  using C5_model_error_propagates [of failing_env failing_llm ragdoll
          "\<lparr>form = blank_form, user_input = Some ''suggest a diet''\<rparr>" "''suggest a diet''"
          "Exception ''quota exceeded''"]
  by (simp add: initialize_def failing_env_def failing_llm_def ragdoll_def)

text \<open>
  Claim C9. Rendering the chat view again with the session state unchanged is
  idempotent: the run leaves the session state as it was and shows the profile summary
  and every stored message once, in stored order; a second run from the resulting state
  gives the same state and the same trace.
\<close>

theorem C9_rerender_idempotent:
  assumes "initialize env = Inr model"
      and "form_submitted st"
      and "user_input w = None"
  shows "run_script env (store st) w =
           (store st,
            page_header
              @ Expander ''Pet Information (saved from form)'' True
                  (''```\<newline>'' @ pet_info st @ ''\<newline>```'')
              # map (\<lambda>msg. ChatMessage (role msg) (content msg)) (messages st)
              @ [ChatInput ''Type your request...''],
            Completed)
         \<and> run_script env (fst (run_script env (store st) w)) w = run_script env (store st) w"
  using assms
  by (simp add: run_script_chat chat_page_def chat_view_def)

theorem C9_rerender_idempotent_witness:
  "initialize scenario_env = Inr scenario_llm
   \<and> form_submitted ragdoll
   \<and> user_input \<lparr>form = blank_form, user_input = None\<rparr> = None
   \<and> run_script scenario_env (store ragdoll) \<lparr>form = blank_form, user_input = None\<rparr> =
        (store ragdoll,
         page_header
           @ [Expander ''Pet Information (saved from form)'' True
                ''```\<newline>Species: Cat\<newline>Breed: Ragdoll\<newline>Age: 1\<newline>```'',
              ChatMessage (role greeting) (content greeting),
              ChatInput ''Type your request...''],
         Completed)
   \<and> run_script scenario_env
         (fst (run_script scenario_env (store ragdoll) \<lparr>form = blank_form, user_input = None\<rparr>))
         \<lparr>form = blank_form, user_input = None\<rparr> =
       run_script scenario_env (store ragdoll) \<lparr>form = blank_form, user_input = None\<rparr>"
  using C9_rerender_idempotent [of scenario_env scenario_llm ragdoll
          "\<lparr>form = blank_form, user_input = None\<rparr>"]
  by (simp add: initialize_def scenario_env_def ragdoll_def)

subsection \<open>Sessions\<close>

lemma no_form_widget_chat_view: "\<forall>e \<in> set (chat_view st). \<not> form_widget e"
  by (auto simp add: chat_view_def form_widget_def)

lemma no_form_widget_header: "\<forall>e \<in> set page_header. \<not> form_widget e"
  by (simp add: page_header_def form_widget_def)

lemma chat_page_appends:
  "chat_page model mem st inp = (st', shown, how) \<Longrightarrow>
   (\<exists>ms. st' = st\<lparr>messages := messages st @ ms\<rparr>) \<and> (\<forall>e \<in> set shown. \<not> form_widget e)"
  using no_form_widget_chat_view [of st]
  by (auto simp add: chat_page_def Let_def form_widget_def split: option.splits if_splits sum.splits
      intro: exI [of _ "[]"])

lemma run_script_submitted:
  assumes "form_submitted st" and "run_script env (store st) w = (s', shown, how)"
  shows "(\<exists>ms. s' = store (st\<lparr>messages := messages st @ ms\<rparr>))
         \<and> (\<forall>e \<in> set shown. \<not> form_widget e)"
proof (cases "initialize env")
  case (Inl stop)
  then have "s' = store st" and "shown = page_header @ fst stop"
    using assms(2) by (auto simp add: run_script_def split: prod.splits)
  moreover have "\<forall>e \<in> set (fst stop). \<not> form_widget e"
    using Inl by (auto simp add: initialize_def form_widget_def
        split: option.splits if_splits sum.splits exn.splits)
  moreover have "store st = store (st\<lparr>messages := messages st @ []\<rparr>)"
    by simp
  ultimately show ?thesis
    using no_form_widget_header by (metis Un_iff set_append)
next
  case (Inr model)
  obtain st' sh where cp: "chat_page model new_memory st (user_input w) = (st', sh, how)"
    and s': "s' = store st'" and sh: "shown = page_header @ sh"
    using assms Inr by (auto simp add: run_script_chat split: prod.splits) (metis prod.collapse)
  from chat_page_appends [OF cp] show ?thesis
    using s' sh no_form_widget_header by auto
qed

text \<open>
  Claim C7. Once \<open>form_submitted\<close> is true, it stays true through every later run of the
  session, whatever the environment and the widget values of those runs; no later run
  creates a widget of the intake form; \<open>pet_info\<close> keeps its value; and the message list
  only grows at its end.
\<close>

theorem C7_submitted_is_permanent:
  assumes "form_submitted st"
  shows "fst (run_session (store st) rs) = store (session_defaults (fst (run_session (store st) rs)))
         \<and> form_submitted (session_defaults (fst (run_session (store st) rs)))
         \<and> pet_info (session_defaults (fst (run_session (store st) rs))) = pet_info st
         \<and> prefix (messages st) (messages (session_defaults (fst (run_session (store st) rs))))
         \<and> (\<forall>run \<in> set (snd (run_session (store st) rs)). \<forall>e \<in> set (fst run). \<not> form_widget e)"
  using assms
proof (induction rs arbitrary: st)
  case Nil
  then show ?case by (simp add: session_defaults_store)
next
  case (Cons r rs)
  obtain env w where r: "r = (env, w)" by (cases r)
  obtain s' shown how where step: "run_script env (store st) w = (s', shown, how)"
    by (metis prod.collapse)
  from run_script_submitted [OF Cons.prems step] obtain ms
    where s': "s' = store (st\<lparr>messages := messages st @ ms\<rparr>)"
      and quiet: "\<forall>e \<in> set shown. \<not> form_widget e"
    by blast
  let ?st1 = "st\<lparr>messages := messages st @ ms\<rparr>"
  have "form_submitted ?st1" using Cons.prems by simp
  from Cons.IH [OF this]
  show ?case
    using quiet by (auto simp add: r step s' split: prod.splits dest: append_prefixD)
qed

theorem C7_submitted_is_permanent_witness:
  "form_submitted ragdoll
   \<and> fst (run_session (store ragdoll)
        [(scenario_env, diet_turn), (no_key_env, exercise_turn),
         (failing_env, exercise_turn),
         (scenario_env, \<lparr>form = beagle_form, user_input = None\<rparr>)]) =
       store (ragdoll\<lparr>messages :=
         [greeting,
          \<lparr>role = ''user'', content = ''suggest a diet''\<rparr>,
          \<lparr>role = ''assistant'', content = ''Feed twice a day.''\<rparr>,
          \<lparr>role = ''user'', content = ''and exercise?''\<rparr>]\<rparr>)
   \<and> prefix (messages ragdoll)
        (messages (session_defaults (fst (run_session (store ragdoll)
        [(scenario_env, diet_turn), (no_key_env, exercise_turn),
         (failing_env, exercise_turn),
         (scenario_env, \<lparr>form = beagle_form, user_input = None\<rparr>)]))))
   \<and> list_all (\<lambda>run. list_all (\<lambda>e. \<not> form_widget e) (fst run))
        (snd (run_session (store ragdoll)
        [(scenario_env, diet_turn), (no_key_env, exercise_turn),
         (failing_env, exercise_turn),
         (scenario_env, \<lparr>form = beagle_form, user_input = None\<rparr>)]))"
proof -
  have "form_submitted ragdoll"
    by (simp add: ragdoll_def)
  moreover have "fst (run_session (store ragdoll)
        [(scenario_env, diet_turn), (no_key_env, exercise_turn),
         (failing_env, exercise_turn),
         (scenario_env, \<lparr>form = beagle_form, user_input = None\<rparr>)]) =
       store (ragdoll\<lparr>messages :=
         [greeting,
          \<lparr>role = ''user'', content = ''suggest a diet''\<rparr>,
          \<lparr>role = ''assistant'', content = ''Feed twice a day.''\<rparr>,
          \<lparr>role = ''user'', content = ''and exercise?''\<rparr>]\<rparr>)"
    by (simp add: run_script_def initialize_def scenario_env_def no_key_env_def failing_env_def
          scenario_llm_def failing_llm_def session_defaults_def store_def ragdoll_def
          chat_page_def conversation_chain_invoke_def diet_turn_def exercise_turn_def Let_def
          split: prod.splits)
  ultimately show ?thesis
    using C7_submitted_is_permanent [of ragdoll
        "[(scenario_env, diet_turn), (no_key_env, exercise_turn),
          (failing_env, exercise_turn),
          (scenario_env, \<lparr>form = beagle_form, user_input = None\<rparr>)]"]
    unfolding list_all_iff by blast
qed

lemma shown_messages_append: "shown_messages (xs @ ys) = shown_messages xs @ shown_messages ys"
  by (induction xs rule: shown_messages.induct) simp_all

lemma shown_messages_stored:
  "shown_messages (map (\<lambda>msg. ChatMessage (role msg) (content msg)) ms) = ms"
  by (induction ms) simp_all

lemma shown_messages_chat_view: "shown_messages (chat_view st) = messages st"
  by (simp add: chat_view_def shown_messages_append shown_messages_stored)

lemma shown_messages_header: "shown_messages page_header = []"
  by (simp add: page_header_def)

lemma chat_turn_step:
  assumes "form_submitted st" and "chat_turn (pet_info st) (env, w) t"
  shows "fst (run_script env (store st) w) = store (st\<lparr>messages := messages st @ turn_messages t\<rparr>)"
    and "shown_messages (fst (snd (run_script env (store st) w))) = messages st @ turn_messages t"
proof -
  from assms(2) obtain model where init: "initialize env = Inr model"
    and inp: "user_input w = Some (fst t)" "fst t \<noteq> []"
    and answer: "model (chain_prompt new_memory (pet_info st) (fst t)) = snd t"
    by (auto simp add: chat_turn_def split: sum.splits)
  show "fst (run_script env (store st) w) = store (st\<lparr>messages := messages st @ turn_messages t\<rparr>)"
    using assms(1) init inp answer
    by (cases "snd t")
       (simp_all add: run_script_chat chat_page_def conversation_chain_invoke_def Let_def
          turn_messages_def)
  show "shown_messages (fst (snd (run_script env (store st) w))) = messages st @ turn_messages t"
    using assms(1) init inp answer
    by (cases "snd t")
       (simp_all add: run_script_chat chat_page_def conversation_chain_invoke_def Let_def
          turn_messages_def shown_messages_append shown_messages_chat_view shown_messages_header)
qed

lemma chat_turns_run:
  assumes "list_all2 (chat_turn profile) rs turns"
      and "form_submitted st" and "pet_info st = profile"
  shows "fst (run_session (store st) rs) =
           store (st\<lparr>messages := messages st @ concat (map turn_messages turns)\<rparr>)
         \<and> map (shown_messages \<circ> fst) (snd (run_session (store st) rs)) =
             transcripts (messages st) turns"
  using assms
proof (induction rs turns arbitrary: st rule: list_all2_induct)
  case Nil
  then show ?case by simp
next
  case (Cons r rs t turns)
  obtain env w where r: "r = (env, w)" by (cases r)
  let ?st1 = "st\<lparr>messages := messages st @ turn_messages t\<rparr>"
  have turn: "chat_turn (pet_info st) (env, w) t"
    using Cons.hyps(1) Cons.prems(2) r by simp
  note step = chat_turn_step [OF Cons.prems(1) turn]
  have "form_submitted ?st1" and "pet_info ?st1 = profile"
    using Cons.prems by simp_all
  from Cons.IH [OF this] show ?case
    using step by (auto simp add: r split: prod.splits)
qed

lemma nth_answered_turns:
  assumes "\<forall>t \<in> set turns. \<exists>r. snd t = Inr r" and "N < length turns"
  shows "concat (map turn_messages turns) ! (2 * N) = \<lparr>role = ''user'', content = fst (turns ! N)\<rparr>
         \<and> concat (map turn_messages turns) ! (2 * N + 1) = last (turn_messages (turns ! N))
         \<and> role (last (turn_messages (turns ! N))) = ''assistant''"
  using assms
proof (induction turns arbitrary: N)
  case Nil
  then show ?case by simp
next
  case (Cons t turns)
  from Cons.prems(1) obtain r where r: "snd t = Inr r" by auto
  show ?case
  proof (cases N)
    case 0
    then show ?thesis by (simp add: turn_messages_def r)
  next
    case (Suc n)
    then have "n < length turns" using Cons.prems(2) by simp
    with Cons.IH [of n] Cons.prems(1) show ?thesis
      by (simp add: Suc turn_messages_def r)
  qed
qed

text \<open>
  Claim C3. For every sequence of chat turns, the messages are stored and shown in call
  order. The message list after the session is the list before it followed by the
  messages of the turns, turn after turn, the user's message of a turn first and the
  assistant's reply after it; a turn whose model call raised contributes the user's
  message alone, which was appended before the call. Each run shows exactly the
  message list as it stands after that run. When every call was answered, the N-th user
  message is at position \<open>2 * N\<close> and the N-th reply at position \<open>2 * N + 1\<close> after the
  messages present at the start (counting from 0), so it follows the reply of the turn
  before and precedes its own reply.
\<close>

theorem C3_messages_in_call_order:
  assumes "form_submitted st"
      and "list_all2 (chat_turn (pet_info st)) rs turns"
  shows "messages (session_defaults (fst (run_session (store st) rs))) =
           messages st @ concat (map turn_messages turns)
         \<and> map (shown_messages \<circ> fst) (snd (run_session (store st) rs)) =
             transcripts (messages st) turns
         \<and> ((\<forall>t \<in> set turns. \<exists>r. snd t = Inr r) \<longrightarrow>
              (\<forall>N < length turns.
                 messages (session_defaults (fst (run_session (store st) rs)))
                   ! (length (messages st) + 2 * N) =
                   \<lparr>role = ''user'', content = fst (turns ! N)\<rparr>
                 \<and> Inr (content (messages (session_defaults (fst (run_session (store st) rs)))
                   ! (length (messages st) + 2 * N + 1))) = snd (turns ! N)
                 \<and> role (messages (session_defaults (fst (run_session (store st) rs)))
                   ! (length (messages st) + 2 * N + 1)) = ''assistant''))"
proof -
  note run = chat_turns_run [OF assms(2) assms(1) refl]
  have stored: "messages (session_defaults (fst (run_session (store st) rs))) =
      messages st @ concat (map turn_messages turns)"
    using run by (simp add: session_defaults_store)
  have "messages (session_defaults (fst (run_session (store st) rs)))
          ! (length (messages st) + 2 * N) = \<lparr>role = ''user'', content = fst (turns ! N)\<rparr>
        \<and> Inr (content (messages (session_defaults (fst (run_session (store st) rs)))
          ! (length (messages st) + 2 * N + 1))) = snd (turns ! N)
        \<and> role (messages (session_defaults (fst (run_session (store st) rs)))
          ! (length (messages st) + 2 * N + 1)) = ''assistant''"
    if answered: "\<forall>t \<in> set turns. \<exists>r. snd t = Inr r" and N: "N < length turns" for N
  proof -
    from answered N obtain r where r: "snd (turns ! N) = Inr r"
      by (metis nth_mem)
    have "(messages st @ concat (map turn_messages turns)) ! (length (messages st) + k) =
        concat (map turn_messages turns) ! k" for k
      by (simp add: nth_append)
    from this [of "2 * N"] this [of "2 * N + 1"] nth_answered_turns [OF answered N]
    show ?thesis
      unfolding stored by (simp add: r turn_messages_def add.assoc)
  qed
  then show ?thesis
    using stored run by blast
qed

theorem C3_messages_in_call_order_witness:
  "form_submitted ragdoll
   \<and> list_all2 (chat_turn (pet_info ragdoll))
        [(scenario_env, diet_turn), (scenario_env, exercise_turn)]
        [(''suggest a diet'', Inr ''Feed twice a day.''),
         (''and exercise?'', Inr ''Feed twice a day.'')]
   \<and> list_all (\<lambda>t. \<exists>r. snd t = Inr r)
        [(''suggest a diet'', Inr ''Feed twice a day.''),
         (''and exercise?'', Inr ''Feed twice a day.'') :: string \<times> (exn + string)]
   \<and> (1::nat) < length [(''suggest a diet'', Inr ''Feed twice a day.''),
                  (''and exercise?'', Inr ''Feed twice a day.'') :: string \<times> (exn + string)]
   \<and> messages (session_defaults (fst (run_session (store ragdoll)
        [(scenario_env, diet_turn), (scenario_env, exercise_turn)]))) =
       [greeting,
        \<lparr>role = ''user'', content = ''suggest a diet''\<rparr>,
        \<lparr>role = ''assistant'', content = ''Feed twice a day.''\<rparr>,
        \<lparr>role = ''user'', content = ''and exercise?''\<rparr>,
        \<lparr>role = ''assistant'', content = ''Feed twice a day.''\<rparr>]
   \<and> messages (session_defaults (fst (run_session (store ragdoll)
        [(scenario_env, diet_turn), (scenario_env, exercise_turn)]))) ! 3 =
       \<lparr>role = ''user'', content = ''and exercise?''\<rparr>"
proof -
  have sub: "form_submitted ragdoll" and len: "length (messages ragdoll) = 1"
    by (simp_all add: ragdoll_def)
  have turns: "list_all2 (chat_turn (pet_info ragdoll))
        [(scenario_env, diet_turn), (scenario_env, exercise_turn)]
        [(''suggest a diet'', Inr ''Feed twice a day.''),
         (''and exercise?'', Inr ''Feed twice a day.'')]"
    by (simp add: chat_turn_def initialize_def scenario_env_def scenario_llm_def diet_turn_def
          exercise_turn_def)
  have answered: "\<forall>t \<in> set [(''suggest a diet'', Inr ''Feed twice a day.''),
                  (''and exercise?'', Inr ''Feed twice a day.'') :: string \<times> (exn + string)].
         \<exists>r. snd t = Inr r"
    by simp
  from C3_messages_in_call_order [OF sub turns] answered len
  show ?thesis
    using sub turns by (simp add: turn_messages_def ragdoll_def)
qed

subsection \<open>The prompt of a chat turn\<close>

text \<open>
  The prompt of a chat run is the template filled with the profile, an empty
  transcript and the input of the run, whatever the message list holds.
\<close>

lemma chat_run_prompt:
  assumes "initialize env = Inr model" and "form_submitted st"
      and "user_input w = Some u" and "u \<noteq> []"
  shows "model_requests (fst (snd (run_script env (store st) w))) =
           [format_prompt (pet_info st) [] u]"
proof -
  have "model_requests (xs @ ys) = model_requests xs @ model_requests ys" for xs ys
    by (induction xs rule: model_requests.induct) simp_all
  moreover have "model_requests (map (\<lambda>msg. ChatMessage (role msg) (content msg)) ms) = []" for ms
    by (induction ms) simp_all
  ultimately show ?thesis
    using assms
    by (cases "model (chain_prompt new_memory (pet_info st) u)")
       (simp_all add: run_script_chat chat_page_def conversation_chain_invoke_def Let_def
          chat_view_def page_header_def chain_prompt_def new_memory_def buffer_string_def)
qed

text \<open>Every prompt holds the profile text and the input of its turn verbatim.\<close>

lemma sublist_after: "sublist xs zs \<Longrightarrow> sublist xs (ys @ zs)"
  by (simp add: sublist_append)

lemma prompt_holds_profile_and_input:
  "sublist profile (format_prompt profile history u)
   \<and> sublist u (format_prompt profile history u)"
  unfolding format_prompt_def
  by (intro conjI sublist_after sublist_append_rightI)

text \<open>
  Within one call, \<open>conversation_chain.invoke\<close> does save the turn in the memory it was
  given.
\<close>

lemma chain_saves_turn:
  "model (chain_prompt mem profile u) = Inr r \<Longrightarrow>
   snd (conversation_chain_invoke model mem profile u) = mem @ [(Human, u), (AI, r)]"
  by (simp add: conversation_chain_invoke_def)

text \<open>
  Claim C4 says that the prompt of every chat turn after the first holds the profile
  text, the transcript of all earlier human and assistant turns kept by the
  conversation memory, and the newest input. The profile and the newest input are in
  the prompt (\<open>prompt_holds_profile_and_input\<close>), but the transcript is not: the memory is constructed at line 46 of every
  run, so the turn that \<open>invoke\<close> saved in the run before is gone and the
  \<open>chat_history\<close> slot is empty in every prompt (\<open>chat_run_prompt\<close>). In the session
  below (a valid form, then the inputs "suggest a diet" and "and exercise?", each
  answered "Feed twice a day.") the prompt of the second chat turn has an empty
  transcript and contains neither the first input nor its answer, where the claim
  requires the lines "Human: suggest a diet" and "AI: Feed twice a day.".
\<close>

theorem C4_second_prompt_without_history:
  "map (model_requests \<circ> fst)
     (snd (run_session new_session
        [(scenario_env, \<lparr>form = beagle_form, user_input = None\<rparr>),
         (scenario_env, diet_turn),
         (scenario_env, exercise_turn)])) =
   [[],
    [format_prompt beagle_profile [] ''suggest a diet''],
    [format_prompt beagle_profile [] ''and exercise?'']]
   \<and> buffer_string [(Human, ''suggest a diet''), (AI, ''Feed twice a day.'')] =
       ''Human: suggest a diet\<newline>AI: Feed twice a day.''
   \<and> \<not> sublist ''suggest a diet'' (format_prompt beagle_profile [] ''and exercise?'')
   \<and> \<not> sublist ''Feed twice a day.'' (format_prompt beagle_profile [] ''and exercise?'')"
proof -
  have init: "initialize scenario_env = Inr scenario_llm"
    by (simp add: initialize_def scenario_env_def)
  have first: "run_script scenario_env new_session \<lparr>form = beagle_form, user_input = None\<rparr> =
      (store \<lparr>form_submitted = True, pet_info = beagle_profile, messages = [greeting]\<rparr>,
       page_header @ form_events beagle_form, Rerun)"
    using init
    by (simp add: run_script_def session_defaults_def new_session_def form_page_def
          incomplete_def profile_text_def breed_def breed_widgets_def beagle_form_def
          blank_form_def store_def beagle_profile_def)
  have no_req: "model_requests (page_header @ form_events beagle_form) = []"
    by (simp add: page_header_def form_events_def breed_widgets_def beagle_form_def
          blank_form_def)
  let ?st1 = "\<lparr>form_submitted = True, pet_info = beagle_profile, messages = [greeting]\<rparr>"
  let ?st2 = "?st1\<lparr>messages := messages ?st1 @ turn_messages (''suggest a diet'', Inr ''Feed twice a day.'')\<rparr>"
  have t1: "chat_turn (pet_info ?st1) (scenario_env, diet_turn) (''suggest a diet'', Inr ''Feed twice a day.'')"
    by (simp add: chat_turn_def init scenario_llm_def diet_turn_def)
  have second: "fst (run_script scenario_env (store ?st1) diet_turn) = store ?st2"
    using chat_turn_step(1) [OF _ t1] by simp
  have req2: "model_requests (fst (snd (run_script scenario_env (store ?st1) diet_turn))) =
      [format_prompt beagle_profile [] ''suggest a diet'']"
    using chat_run_prompt [OF init, of ?st1 diet_turn "''suggest a diet''"]
    by (simp add: diet_turn_def)
  have req3: "model_requests (fst (snd (run_script scenario_env (store ?st2) exercise_turn))) =
      [format_prompt beagle_profile [] ''and exercise?'']"
    using chat_run_prompt [OF init, of ?st2 exercise_turn "''and exercise?''"]
    by (simp add: exercise_turn_def)
  have requests: "map (model_requests \<circ> fst)
     (snd (run_session new_session
        [(scenario_env, \<lparr>form = beagle_form, user_input = None\<rparr>),
         (scenario_env, diet_turn),
         (scenario_env, exercise_turn)])) =
   [[],
    [format_prompt beagle_profile [] ''suggest a diet''],
    [format_prompt beagle_profile [] ''and exercise?'']]"
    using first no_req second req2 req3
    by (auto simp add: split: prod.splits)
  have rendered: "buffer_string [(Human, ''suggest a diet''), (AI, ''Feed twice a day.'')] =
       ''Human: suggest a diet\<newline>AI: Feed twice a day.''"
    by (simp add: buffer_string_def prefix_of_def)
  have absent1: "\<not> sublist ''suggest a diet'' (format_prompt beagle_profile [] ''and exercise?'')"
    by (simp add: format_prompt_def beagle_profile_def sublist_Cons_right)
  have absent2: "\<not> sublist ''Feed twice a day.'' (format_prompt beagle_profile [] ''and exercise?'')"
    by (simp add: format_prompt_def beagle_profile_def sublist_Cons_right)
  show ?thesis
    using requests rendered absent1 absent2 by blast
qed

end
